theory Spec2Isabelle
  imports Complex_Main
begin

section \<open>Tensor entries\<close>

text \<open>
  The notebooks branch on one thing only about a floating-point number: whether it is a
  NaN, an infinity, or an ordinary number. An entry of a tensor is therefore one of the
  IEEE 754 special values or a finite number. Rounding and overflow of finite numbers
  are not modelled: no property below depends on them.
\<close>

datatype fl = Finite real | PosInf | NegInf | NaN

text \<open>\<^verbatim>\<open>torch.isnan\<close> and \<open>torch.isinf\<close>, on one entry.\<close>

fun isnan :: "fl \<Rightarrow> bool" where
  "isnan NaN = True"
| "isnan _ = False"

fun isinf :: "fl \<Rightarrow> bool" where
  "isinf PosInf = True"
| "isinf NegInf = True"
| "isinf _ = False"

definition isfinite :: "fl \<Rightarrow> bool" where
  "isfinite v = (\<not> (isnan v \<or> isinf v))"

text \<open>
  \<^verbatim>\<open>torch.exp\<close> on one entry. It is a function of the external library. Its values at
  the special inputs are the ones IEEE 754 fixes: the exponential of plus infinity is
  plus infinity, of minus infinity is zero, of a NaN is a NaN. Its value at a finite
  number is the library's (the rounded exponential, plus infinity on overflow) and is
  the parameter \<open>e\<close>.
\<close>

fun torch_exp :: "(real \<Rightarrow> fl) \<Rightarrow> fl \<Rightarrow> fl" where
  "torch_exp e (Finite x) = e x"
| "torch_exp e PosInf = PosInf"
| "torch_exp e NegInf = Finite 0"
| "torch_exp e NaN = NaN"

section \<open>Density grids for plotting\<close>

text \<open>
  A grid is the list of its entries in row-major order; \<^verbatim>\<open>.view(*xx.shape)\<close> changes the
  shape only. The cells that plot a density all run
  \<^verbatim>\<open>
    prob = torch.exp(log_prob)
    prob[torch.isnan(prob)] = 0
  \<close>
  except the first plot of the Real NVP notebook (the target), which plots
  \<^verbatim>\<open>torch.exp(log_prob)\<close> as it is.
\<close>

definition exp_grid :: "(real \<Rightarrow> fl) \<Rightarrow> fl list \<Rightarrow> fl list" where
  "exp_grid e log_prob = map (torch_exp e) log_prob"

definition zero_nan :: "fl list \<Rightarrow> fl list" where
  "zero_nan prob = map (\<lambda>v. if isnan v then Finite 0 else v) prob"

definition density_grid :: "(real \<Rightarrow> fl) \<Rightarrow> fl list \<Rightarrow> fl list" where
  "density_grid e log_prob = zero_nan (exp_grid e log_prob)"


section \<open>Real NVP: model assembly\<close>

text \<open>
  \<^verbatim>\<open>
    K = 32
    b = torch.tensor([0, 1])
    flows = []
    for i in range(K):
        s = nf.nets.MLP([2, 4, 4, 2])
        t = nf.nets.MLP([2, 4, 4, 2])
        if i % 2 == 0:
            flows += [nf.flows.MaskedAffineFlow(b, t, s)]
        else:
            flows += [nf.flows.MaskedAffineFlow(1 - b, t, s)]
  \<close>
  A flow layer is the constructor call with its arguments: the mask and the two
  networks, each given by its layer widths.
\<close>

datatype mlp = MLP "nat list"

datatype flow = MaskedAffineFlow (mask: "int list") (t_net: mlp) (s_net: mlp)

definition K :: nat where
  "K = 32"

definition b :: "int list" where
  "b = [0, 1]"

definition one_minus :: "int list \<Rightarrow> int list" where
  "one_minus m = map (\<lambda>v. 1 - v) m"

definition add_flow :: "nat \<Rightarrow> flow list \<Rightarrow> flow list" where
  "add_flow i flows =
     (let s = MLP [2, 4, 4, 2];
          t = MLP [2, 4, 4, 2]
      in if i mod 2 = 0 then flows @ [MaskedAffineFlow b t s]
         else flows @ [MaskedAffineFlow (one_minus b) t s])"

definition build_flows :: "nat \<Rightarrow> flow list" where
  "build_flows n = fold add_flow [0..<n] []"

definition flows :: "flow list" where
  "flows = build_flows K"

text \<open>The number of layers of a stack whose mask is 0 at dimension \<open>d\<close>.\<close>

definition unmasked_count :: "nat \<Rightarrow> flow list \<Rightarrow> nat" where
  "unmasked_count d fs = length (filter (\<lambda>f. mask f ! d = 0) fs)"

section \<open>Real NVP: the target image\<close>





section \<open>The external library, as the notebooks see it\<close>

text \<open>
  Every numerical operation is a call into the external library. A run of a notebook is
  modelled by the model parameters, the loss history, and the list of the calls made so
  far, in order. \<open>Pcolormesh\<close> carries the grid that is drawn (figure creation and
  \<^verbatim>\<open>plt.show\<close> go with it), \<open>Save\<close> the file name, \<open>Sample\<close> and \<open>ReverseKLD\<close>
  the number of samples, \<open>ForwardKLD\<close> the batch.
\<close>

datatype 'x call =
    ZeroGrad
  | Sample nat
  | ForwardKLD 'x
  | ReverseKLD nat
  | Backward
  | OptimizerStep
  | SchedulerStep
  | Eval
  | Train
  | TargetLogProb
  | LogProb
  | Pcolormesh "fl list"
  | Save string

text \<open>
  What the library returns is not decided by the notebooks, so it is a parameter: the
  batch drawn from the target and the reverse-KLD loss depend on the random draws of the
  iteration, the optimizer's update on the gradients and the optimizer's own state at
  that iteration; \<open>log_prob\<close> and \<open>target_log_prob\<close> are the log-densities of the
  model and of the target on the fixed grid \<^verbatim>\<open>zz\<close>. Of all calls, only
  \<^verbatim>\<open>optimizer.step()\<close> writes the parameters.
\<close>

record ('p, 'x) library =
  p_sample :: "nat \<Rightarrow> nat \<Rightarrow> 'x"
  forward_kld :: "'p \<Rightarrow> 'x \<Rightarrow> fl"
  reverse_kld :: "nat \<Rightarrow> 'p \<Rightarrow> nat \<Rightarrow> fl"
  adam :: "nat \<Rightarrow> 'p \<Rightarrow> 'p"
  log_prob :: "'p \<Rightarrow> fl list"
  target_log_prob :: "fl list"
  exp_finite :: "real \<Rightarrow> fl"

record ('p, 'x) world =
  params :: 'p
  loss_hist :: "fl list"
  calls :: "'x call list"

definition call :: "'x call \<Rightarrow> ('p, 'x) world \<Rightarrow> ('p, 'x) world" where
  "call c s = s\<lparr>calls := calls s @ [c]\<rparr>"

definition optimizer_step :: "('p, 'x) library \<Rightarrow> nat \<Rightarrow> ('p, 'x) world \<Rightarrow> ('p, 'x) world" where
  "optimizer_step L it s = call OptimizerStep (s\<lparr>params := adam L it (params s)\<rparr>)"

text \<open>\<^verbatim>\<open>loss_hist = np.append(loss_hist, loss.to('cpu').data.numpy())\<close>, the loss a scalar.\<close>

definition log_loss :: "fl \<Rightarrow> ('p, 'x) world \<Rightarrow> ('p, 'x) world" where
  "log_loss loss s = s\<lparr>loss_hist := loss_hist s @ [loss]\<rparr>"

section \<open>Real NVP: plotting and training\<close>

text \<open>
  The cell "Plot prior distribution" and "Plot initial posterior distribution":
  \<^verbatim>\<open>
    log_prob = target.log_prob(zz).to('cpu').view(*xx.shape)
    prob = torch.exp(log_prob)
    plt.pcolormesh(xx, yy, prob.data.numpy())

    log_prob = nfm.log_prob(zz).to('cpu').view(*xx.shape)
    prob = torch.exp(log_prob)
    prob[torch.isnan(prob)] = 0
    plt.pcolormesh(xx, yy, prob.data.numpy())
  \<close>
\<close>

definition plot_model :: "('p, 'x) library \<Rightarrow> ('p, 'x) world \<Rightarrow> ('p, 'x) world" where
  "plot_model L s =
     (let lp = log_prob L (params s);
          s1 = call LogProb s
      in call (Pcolormesh (density_grid (exp_finite L) lp)) s1)"


text \<open>
  \<^verbatim>\<open>
    max_iter = 10000
    num_samples = 2 * 16
    show_iter = 2000
    loss_hist = np.array([])
    for it in tqdm(range(max_iter)):
        optimizer.zero_grad()
        x = nfm.p.sample(num_samples).double()
        loss = nfm.forward_kld(x)
        loss.backward()
        optimizer.step()
        loss_hist = np.append(loss_hist, loss.to('cpu').data.numpy())
        if (it + 1) % show_iter == 0:
            log_prob = nfm.log_prob(zz).to('cpu').view(*xx.shape)
            prob = torch.exp(log_prob)
            prob[torch.isnan(prob)] = 0
            plt.pcolormesh(xx, yy, prob.data.numpy())
  \<close>
\<close>

definition realnvp_max_iter :: nat where
  "realnvp_max_iter = 10000"

definition realnvp_num_samples :: nat where
  "realnvp_num_samples = 2 * 16"

definition realnvp_show_iter :: nat where
  "realnvp_show_iter = 2000"

definition realnvp_iteration :: "('p, 'x) library \<Rightarrow> nat \<Rightarrow> ('p, 'x) world \<Rightarrow> ('p, 'x) world" where
  "realnvp_iteration L it s0 =
     (let s1 = call ZeroGrad s0;
          x = p_sample L it realnvp_num_samples;
          s2 = call (Sample realnvp_num_samples) s1;
          loss = forward_kld L (params s2) x;
          s3 = call (ForwardKLD x) s2;
          s4 = call Backward s3;
          s5 = optimizer_step L it s4;
          s6 = log_loss loss s5
      in if (it + 1) mod realnvp_show_iter = 0 then plot_model L s6 else s6)"

definition realnvp_loop :: "('p, 'x) library \<Rightarrow> nat \<Rightarrow> ('p, 'x) world \<Rightarrow> ('p, 'x) world" where
  "realnvp_loop L n s = fold (realnvp_iteration L) [0..<n] s"

definition realnvp_train :: "('p, 'x) library \<Rightarrow> ('p, 'x) world \<Rightarrow> ('p, 'x) world" where
  "realnvp_train L s = realnvp_loop L realnvp_max_iter (s\<lparr>loss_hist := []\<rparr>)"

section \<open>Neural spline flow: training\<close>

text \<open>\<^verbatim>\<open>'model_%05i.pt' % (it + 1)\<close>: the decimal digits, padded with zeros to five.\<close>

definition digit :: "nat \<Rightarrow> char" where
  "digit d = ''0123456789'' ! d"

fun decimal :: "nat \<Rightarrow> string" where
  "decimal n = (if n < 10 then [digit n] else decimal (n div 10) @ [digit (n mod 10)])"

declare decimal.simps [simp del]

definition fmt_05i :: "nat \<Rightarrow> string" where
  "fmt_05i n = (let ds = decimal n in replicate (5 - length ds) (CHR ''0'') @ ds)"

definition checkpoint_name :: "nat \<Rightarrow> string" where
  "checkpoint_name n = ''model_'' @ fmt_05i n @ ''.pt''"

text \<open>
  \<^verbatim>\<open>
    max_iter = 10000
    num_samples = 2 ** 14
    show_iter = 500
    loss_hist = np.array([])
    for it in tqdm(range(max_iter)):
        optimizer.zero_grad()
        loss = model.reverse_kld(num_samples)
        if ~(torch.isnan(loss) | torch.isinf(loss)):
            loss.backward()
            optimizer.step()
        loss_hist = np.append(loss_hist, loss.to('cpu').data.numpy())
        if (it + 1) % show_iter == 0:
            model.eval()
            with torch.no_grad():
                log_prob = model.log_prob(zz.to(device)).to('cpu').view(*xx.shape)
            model.train()
            prob = torch.exp(log_prob)
            prob[torch.isnan(prob)] = 0
            plt.pcolormesh(yy, xx, prob.data.numpy(), cmap='coolwarm')
            model.save('model_%05i.pt' % (it + 1))
        scheduler.step()
  \<close>
\<close>

definition nsf_max_iter :: nat where
  "nsf_max_iter = 10000"

definition nsf_num_samples :: nat where
  "nsf_num_samples = 2 ^ 14"

definition nsf_show_iter :: nat where
  "nsf_show_iter = 500"

definition nsf_show :: "('p, 'x) library \<Rightarrow> nat \<Rightarrow> ('p, 'x) world \<Rightarrow> ('p, 'x) world" where
  "nsf_show L it s =
     (let s1 = call Eval s;
          lp = log_prob L (params s1);
          s2 = call LogProb s1;
          s3 = call Train s2;
          s4 = call (Pcolormesh (density_grid (exp_finite L) lp)) s3
      in call (Save (checkpoint_name (it + 1))) s4)"

definition nsf_iteration :: "('p, 'x) library \<Rightarrow> nat \<Rightarrow> ('p, 'x) world \<Rightarrow> ('p, 'x) world" where
  "nsf_iteration L it s0 =
     (let s1 = call ZeroGrad s0;
          loss = reverse_kld L it (params s1) nsf_num_samples;
          s2 = call (ReverseKLD nsf_num_samples) s1;
          s3 = (if \<not> (isnan loss \<or> isinf loss)
                then optimizer_step L it (call Backward s2)
                else s2);
          s4 = log_loss loss s3;
          s5 = (if (it + 1) mod nsf_show_iter = 0 then nsf_show L it s4 else s4)
      in call SchedulerStep s5)"

definition nsf_loop :: "('p, 'x) library \<Rightarrow> nat \<Rightarrow> ('p, 'x) world \<Rightarrow> ('p, 'x) world" where
  "nsf_loop L n s = fold (nsf_iteration L) [0..<n] s"

definition nsf_train :: "('p, 'x) library \<Rightarrow> ('p, 'x) world \<Rightarrow> ('p, 'x) world" where
  "nsf_train L s = nsf_loop L nsf_max_iter (s\<lparr>loss_hist := []\<rparr>)"

section \<open>Reading the list of calls\<close>

fun saved_files :: "'x call list \<Rightarrow> string list" where
  "saved_files [] = []"
| "saved_files (Save name # cs) = name # saved_files cs"
| "saved_files (c # cs) = saved_files cs"



text \<open>The iterations of a loop of \<open>n\<close> rounds at which \<open>it + 1\<close> is a multiple of \<open>k\<close>.\<close>

definition show_iterations :: "nat \<Rightarrow> nat \<Rightarrow> nat list" where
  "show_iterations k n = filter (\<lambda>it. (it + 1) mod k = 0) [0..<n]"

section \<open>A library for closed instances\<close>

text \<open>
  The parameters are a counter that each optimizer step increments. The forward-KLD loss
  is a NaN; the reverse-KLD loss is a NaN in iteration 0, plus infinity in iteration 499
  and 1 otherwise; the log-density on the grid has a NaN, both infinities and two
  numbers, the exponential of the second of which overflows.
\<close>

definition test_lib :: "(nat, unit) library" where
  "test_lib =
     \<lparr>p_sample = (\<lambda>it n. ()),
      forward_kld = (\<lambda>p x. NaN),
      reverse_kld = (\<lambda>it p n. if it = 0 then NaN else if it = 499 then PosInf else Finite 1),
      adam = (\<lambda>it p. Suc p),
      log_prob = (\<lambda>p. [NaN, PosInf, NegInf, Finite 0, Finite 1000]),
      target_log_prob = [Finite 0],
      exp_finite = (\<lambda>x. if x \<le> 0 then Finite 1 else PosInf)\<rparr>"

definition test_world :: "(nat, unit) world" where
  "test_world = \<lparr>params = 0, loss_hist = [], calls = []\<rparr>"

section \<open>Properties\<close>

subsection \<open>The stack of flows\<close>

lemma build_flows_Suc: "build_flows (Suc n) = add_flow n (build_flows n)"
  by (simp add: build_flows_def)

lemma length_build_flows: "length (build_flows n) = n"
  by (induction n) (simp_all add: build_flows_Suc add_flow_def build_flows_def Let_def)

lemma mask_build_flows:
  "i < n \<Longrightarrow> mask (build_flows n ! i) = (if even i then [0, 1] else [1, 0])"
proof (induction n)
  case 0
  then show ?case by simp
next
  case (Suc n)
  show ?case
  proof (cases "i = n")
    case True
    then show ?thesis
      by (simp add: build_flows_Suc add_flow_def Let_def nth_append length_build_flows
          b_def one_minus_def even_iff_mod_2_eq_zero)
  next
    case False
    with Suc.prems have "i < n" by simp
    with Suc.IH show ?thesis
      by (simp add: build_flows_Suc add_flow_def Let_def nth_append length_build_flows)
  qed
qed

lemma unmasked_count_build_flows:
  "d < 2 \<Longrightarrow> unmasked_count d (build_flows (2 * n)) = n"
proof (induction n)
  case 0
  then show ?case by (simp add: build_flows_def unmasked_count_def)
next
  case (Suc n)
  have "d = 0 \<or> d = 1" using Suc.prems by auto
  then show ?case using Suc
    by (auto simp: build_flows_Suc add_flow_def Let_def unmasked_count_def b_def one_minus_def)
qed

subsection \<open>One iteration, one loop\<close>

lemma saved_files_append: "saved_files (xs @ ys) = saved_files xs @ saved_files ys"
  by (induction xs rule: saved_files.induct) simp_all



lemma count_list_app: "count_list (xs @ ys) c = count_list xs c + count_list ys c"
  by (induction xs) simp_all

lemma show_iterations_Suc:
  "show_iterations k (Suc n) = show_iterations k n @ (if (n + 1) mod k = 0 then [n] else [])"
  by (simp add: show_iterations_def)

lemma calls_realnvp_iteration:
  "calls (realnvp_iteration L it s) =
     calls s @ [ZeroGrad, Sample realnvp_num_samples,
                ForwardKLD (p_sample L it realnvp_num_samples), Backward, OptimizerStep]
       @ (if (it + 1) mod realnvp_show_iter = 0
          then [LogProb, Pcolormesh (density_grid (exp_finite L) (log_prob L (adam L it (params s))))]
          else [])"
  by (simp add: realnvp_iteration_def Let_def call_def optimizer_step_def log_loss_def
      plot_model_def)

lemma params_realnvp_iteration: "params (realnvp_iteration L it s) = adam L it (params s)"
  by (simp add: realnvp_iteration_def Let_def call_def optimizer_step_def log_loss_def
      plot_model_def)


lemma calls_nsf_iteration:
  "calls (nsf_iteration L it s) =
     calls s @ [ZeroGrad, ReverseKLD nsf_num_samples]
       @ (if isfinite (reverse_kld L it (params s) nsf_num_samples)
          then [Backward, OptimizerStep] else [])
       @ (if (it + 1) mod nsf_show_iter = 0
          then [Eval, LogProb, Train,
                Pcolormesh (density_grid (exp_finite L) (log_prob L (params (nsf_iteration L it s)))),
                Save (checkpoint_name (it + 1))]
          else [])
       @ [SchedulerStep]"
  by (simp add: nsf_iteration_def Let_def call_def optimizer_step_def log_loss_def
      nsf_show_def isfinite_def)

lemma params_nsf_iteration:
  "params (nsf_iteration L it s) =
     (if isfinite (reverse_kld L it (params s) nsf_num_samples)
      then adam L it (params s) else params s)"
  by (simp add: nsf_iteration_def Let_def call_def optimizer_step_def log_loss_def
      nsf_show_def isfinite_def)

lemma loss_hist_nsf_iteration:
  "loss_hist (nsf_iteration L it s) =
     loss_hist s @ [reverse_kld L it (params s) nsf_num_samples]"
  by (simp add: nsf_iteration_def Let_def call_def optimizer_step_def log_loss_def
      nsf_show_def)

lemma realnvp_loop_Suc: "realnvp_loop L (Suc n) s = realnvp_iteration L n (realnvp_loop L n s)"
  by (simp add: realnvp_loop_def)

lemma nsf_loop_Suc: "nsf_loop L (Suc n) s = nsf_iteration L n (nsf_loop L n s)"
  by (simp add: nsf_loop_def)

lemma realnvp_loop_0: "realnvp_loop L 0 s = s"
  by (simp add: realnvp_loop_def)

lemma nsf_loop_0: "nsf_loop L 0 s = s"
  by (simp add: nsf_loop_def)



lemma saved_files_nsf_loop:
  "saved_files (calls (nsf_loop L n s)) =
     saved_files (calls s) @ map (\<lambda>it. checkpoint_name (it + 1)) (show_iterations nsf_show_iter n)"
  by (induction n)
    (simp_all add: nsf_loop_0 nsf_loop_Suc calls_nsf_iteration saved_files_append
      show_iterations_Suc show_iterations_def)

lemma saved_files_realnvp_loop:
  "saved_files (calls (realnvp_loop L n s)) = saved_files (calls s)"
  by (induction n)
    (simp_all add: realnvp_loop_0 realnvp_loop_Suc calls_realnvp_iteration saved_files_append)



lemma scheduler_steps_nsf_loop:
  "count_list (calls (nsf_loop L n s)) SchedulerStep = count_list (calls s) SchedulerStep + n"
  by (induction n)
    (simp_all add: nsf_loop_0 nsf_loop_Suc calls_nsf_iteration count_list_app)

lemma length_show_iterations: "0 < k \<Longrightarrow> length (show_iterations k n) = n div k"
proof (induction n)
  case 0
  then show ?case by (simp add: show_iterations_def)
next
  case (Suc n)
  then show ?case
    by (auto simp: show_iterations_Suc div_Suc mod_Suc split: if_splits)
qed

subsection \<open>Checkpoint names\<close>

text \<open>Reading the digits back gives the number, so two iterations never share a file name.\<close>

lemma digit_value: "d < 10 \<Longrightarrow> of_char (digit d) - 48 = (d::nat)"
proof -
  assume "d < 10"
  then have "d \<in> {0, 1, 2, 3, 4, 5, 6, 7, 8, 9}" by auto
  then show ?thesis by (auto simp: digit_def)
qed

lemma read_decimal: "foldl (\<lambda>a c. 10 * a + (of_char c - 48)) (0::nat) (decimal n) = n"
proof (induction n rule: decimal.induct)
  case (1 n)
  show ?case
  proof (cases "n < 10")
    case True
    then show ?thesis by (simp add: decimal.simps [of n] digit_value)
  next
    case False
    then have "foldl (\<lambda>a c. 10 * a + (of_char c - 48)) (0::nat) (decimal (n div 10)) = n div 10"
      using "1.IH" by simp
    with False show ?thesis by (simp add: decimal.simps [of n] digit_value)
  qed
qed

lemma read_zeros: "foldl (\<lambda>a c. 10 * a + (of_char c - 48)) (0::nat) (replicate k (CHR ''0'')) = 0"
  by (induction k) simp_all

lemma read_fmt_05i: "foldl (\<lambda>a c. 10 * a + (of_char c - 48)) (0::nat) (fmt_05i n) = n"
  by (simp add: fmt_05i_def Let_def read_zeros read_decimal)

lemma checkpoint_name_inj: "checkpoint_name n = checkpoint_name m \<Longrightarrow> n = m"
proof -
  assume "checkpoint_name n = checkpoint_name m"
  then have "fmt_05i n = fmt_05i m" by (simp add: checkpoint_name_def)
  then have "foldl (\<lambda>a c. 10 * a + (of_char c - 48)) (0::nat) (fmt_05i n) =
             foldl (\<lambda>a c. 10 * a + (of_char c - 48)) (0::nat) (fmt_05i m)" by simp
  then show "n = m" by (simp only: read_fmt_05i)
qed

lemma distinct_checkpoint_names:
  "distinct (map (\<lambda>it. checkpoint_name (it + 1)) (show_iterations k n))"
proof -
  have "inj_on (\<lambda>it. checkpoint_name (it + 1)) (set (show_iterations k n))"
    by (rule inj_onI) (drule checkpoint_name_inj, simp)
  moreover have "distinct (show_iterations k n)"
    by (simp add: show_iterations_def)
  ultimately show ?thesis by (simp only: distinct_map)
qed

section \<open>The claims\<close>

text \<open>
  Claim C1 says that every training loop skips the optimizer step when the loss is not
  finite. The forward-KLD loop of the Real NVP notebook has no such check: with a NaN
  loss in iteration 0 it back-propagates, steps the optimizer and changes the parameters.
\<close>

theorem C1_counterexample:
  "isnan (forward_kld test_lib (params test_world) (p_sample test_lib 0 realnvp_num_samples)) \<and>
   count_list (calls (realnvp_iteration test_lib 0 test_world)) OptimizerStep = 1 \<and>
   count_list (calls (realnvp_iteration test_lib 0 test_world)) Backward = 1 \<and>
   params (realnvp_iteration test_lib 0 test_world) \<noteq> params test_world"
  by (simp add: calls_realnvp_iteration params_realnvp_iteration test_lib_def test_world_def
      realnvp_show_iter_def)

text \<open>
  Claim C1, amended. In the reverse-KLD loop (neural spline flow notebook) an iteration
  back-propagates and steps the optimizer exactly when its loss is finite, and the
  parameters are updated exactly then; otherwise both calls are skipped and the
  parameters stay. The forward-KLD loop (Real NVP notebook) back-propagates and steps
  the optimizer in every iteration, whatever the loss.
\<close>

theorem C1_step_only_when_finite:
  "count_list (calls (nsf_iteration L it s)) OptimizerStep =
     count_list (calls s) OptimizerStep +
       (if isfinite (reverse_kld L it (params s) nsf_num_samples) then 1 else 0) \<and>
   count_list (calls (nsf_iteration L it s)) Backward =
     count_list (calls s) Backward +
       (if isfinite (reverse_kld L it (params s) nsf_num_samples) then 1 else 0) \<and>
   params (nsf_iteration L it s) =
     (if isfinite (reverse_kld L it (params s) nsf_num_samples)
      then adam L it (params s) else params s) \<and>
   count_list (calls (realnvp_iteration L' it' s')) OptimizerStep =
     count_list (calls s') OptimizerStep + 1 \<and>
   count_list (calls (realnvp_iteration L' it' s')) Backward =
     count_list (calls s') Backward + 1 \<and>
   params (realnvp_iteration L' it' s') = adam L' it' (params s')"
  by (simp add: calls_nsf_iteration params_nsf_iteration calls_realnvp_iteration
      params_realnvp_iteration count_list_app)

text \<open>Iteration 0 of the test library has a NaN loss, iteration 1 a finite one.\<close>

theorem C1_step_only_when_finite_witness:
  "\<not> isfinite (reverse_kld test_lib 0 (params test_world) nsf_num_samples) \<and>
   count_list (calls (nsf_iteration test_lib 0 test_world)) OptimizerStep = 0 \<and>
   count_list (calls (nsf_iteration test_lib 0 test_world)) Backward = 0 \<and>
   params (nsf_iteration test_lib 0 test_world) = 0 \<and>
   isfinite (reverse_kld test_lib 1 (params test_world) nsf_num_samples) \<and>
   count_list (calls (nsf_iteration test_lib 1 test_world)) OptimizerStep = 1 \<and>
   count_list (calls (nsf_iteration test_lib 1 test_world)) Backward = 1 \<and>
   params (nsf_iteration test_lib 1 test_world) = 1"
  using C1_step_only_when_finite [of test_lib 0 test_world test_lib 0 test_world]
    C1_step_only_when_finite [of test_lib 1 test_world test_lib 0 test_world]
  by (simp add: test_lib_def test_world_def isfinite_def)

text \<open>
  Claim C2 says that every training loop writes a checkpoint when \<open>it + 1\<close> is a
  multiple of \<open>show_iter\<close>. Iteration 1999 of the forward-KLD loop is such an iteration
  (\<open>show_iter\<close> is 2000 there) and writes no file.
\<close>

theorem C2_counterexample:
  "(1999 + 1) mod realnvp_show_iter = 0 \<and>
   saved_files (calls (realnvp_iteration test_lib 1999 test_world)) = []"
  by (simp add: calls_realnvp_iteration saved_files_append realnvp_show_iter_def test_world_def)

text \<open>
  Claim C2, amended. The reverse-KLD loop writes the checkpoint
  \<^verbatim>\<open>'model_%05i.pt' % (it + 1)\<close> in every iteration \<open>it\<close> such that \<open>it + 1\<close> is a
  multiple of its \<open>show_iter\<close>, and nothing in any other iteration; over the whole
  training these are the files written, in this order, 20 files of different names. The
  forward-KLD loop writes no checkpoint at all.
\<close>

theorem C2_checkpoints:
  "saved_files (calls (nsf_iteration L it s)) =
     saved_files (calls s) @
       (if (it + 1) mod nsf_show_iter = 0 then [checkpoint_name (it + 1)] else []) \<and>
   saved_files (calls (nsf_train L s)) =
     saved_files (calls s) @
       map (\<lambda>it. checkpoint_name (it + 1)) (show_iterations nsf_show_iter nsf_max_iter) \<and>
   distinct (map (\<lambda>it. checkpoint_name (it + 1)) (show_iterations nsf_show_iter nsf_max_iter)) \<and>
   length (show_iterations nsf_show_iter nsf_max_iter) = 20 \<and>
   saved_files (calls (realnvp_iteration L' it' s')) = saved_files (calls s') \<and>
   saved_files (calls (realnvp_train L' s')) = saved_files (calls s')"
proof -
  have "length (show_iterations nsf_show_iter nsf_max_iter) = nsf_max_iter div nsf_show_iter"
    by (rule length_show_iterations) (simp add: nsf_show_iter_def)
  then have n: "length (show_iterations nsf_show_iter nsf_max_iter) = 20"
    by (simp add: nsf_show_iter_def nsf_max_iter_def)
  have a: "saved_files (calls (nsf_iteration L it s)) =
     saved_files (calls s) @
       (if (it + 1) mod nsf_show_iter = 0 then [checkpoint_name (it + 1)] else [])"
    by (simp add: calls_nsf_iteration saved_files_append)
  have b: "saved_files (calls (nsf_train L s)) =
     saved_files (calls s) @
       map (\<lambda>it. checkpoint_name (it + 1)) (show_iterations nsf_show_iter nsf_max_iter)"
    by (simp add: nsf_train_def saved_files_nsf_loop)
  have c: "saved_files (calls (realnvp_iteration L' it' s')) = saved_files (calls s')"
    by (simp add: calls_realnvp_iteration saved_files_append)
  have d: "saved_files (calls (realnvp_train L' s')) = saved_files (calls s')"
    by (simp add: realnvp_train_def saved_files_realnvp_loop)
  from a b distinct_checkpoint_names n c d show ?thesis by blast
qed

text \<open>
  Iteration 499 writes \<^verbatim>\<open>model_00500.pt\<close>, iteration 500 writes nothing, the training
  writes 20 files.
\<close>

theorem C2_checkpoints_witness:
  "(499 + 1) mod nsf_show_iter = 0 \<and>
   saved_files (calls (nsf_iteration test_lib 499 test_world)) = [''model_00500.pt''] \<and>
   (500 + 1) mod nsf_show_iter \<noteq> 0 \<and>
   saved_files (calls (nsf_iteration test_lib 500 test_world)) = [] \<and>
   length (saved_files (calls (nsf_train test_lib test_world))) = 20"
proof -
  have n: "checkpoint_name 500 = ''model_00500.pt''"
    by (simp add: checkpoint_name_def fmt_05i_def decimal.simps digit_def Let_def numeral_2_eq_2)
  have e: "saved_files (calls test_world) = []"
    by (simp add: test_world_def)
  show ?thesis
    using C2_checkpoints [of test_lib 499 test_world test_lib 0 test_world]
      C2_checkpoints [of test_lib 500 test_world test_lib 0 test_world]
    by (simp add: nsf_show_iter_def n e)
qed












text \<open>
  Claim C8. The Real NVP stack has \<open>K = 32\<close> layers; layer \<open>i\<close> has mask \<open>[0, 1]\<close> when
  \<open>i\<close> is even and \<open>[1, 0]\<close> when \<open>i\<close> is odd, so two consecutive layers have
  complementary masks, and each of the two dimensions has mask entry 0 in half of the
  layers.
\<close>

theorem C8_masks_alternate:
  "length flows = K \<and>
   (\<forall>i<K. mask (flows ! i) = (if even i then [0, 1] else [1, 0])) \<and>
   (\<forall>i. Suc i < K \<longrightarrow> mask (flows ! Suc i) = one_minus (mask (flows ! i))) \<and>
   (\<forall>d<2. unmasked_count d flows = K div 2)"
proof -
  have len: "length flows = K"
    by (simp add: flows_def length_build_flows)
  have m: "\<forall>i<K. mask (flows ! i) = (if even i then [0, 1] else [1, 0])"
    by (simp add: flows_def mask_build_flows)
  have c: "\<forall>i. Suc i < K \<longrightarrow> mask (flows ! Suc i) = one_minus (mask (flows ! i))"
  proof (intro allI impI)
    fix i assume "Suc i < K"
    then have "mask (flows ! Suc i) = (if even (Suc i) then [0, 1] else [1, 0])"
      and "mask (flows ! i) = (if even i then [0, 1] else [1, 0])"
      using m by simp_all
    then show "mask (flows ! Suc i) = one_minus (mask (flows ! i))"
      by (simp add: one_minus_def)
  qed
  have h: "\<forall>d<2. unmasked_count d flows = K div 2"
  proof (intro allI impI)
    fix d :: nat assume "d < 2"
    then have "unmasked_count d (build_flows (2 * 16)) = 16"
      by (rule unmasked_count_build_flows)
    then show "unmasked_count d flows = K div 2"
      by (simp add: flows_def K_def)
  qed
  from len m c h show ?thesis by blast
qed

text \<open>The first two layers, and the counts for both dimensions.\<close>

theorem C8_masks_alternate_witness:
  "(0::nat) < K \<and> Suc 0 < K \<and> mask (flows ! 0) = [0, 1] \<and> mask (flows ! Suc 0) = [1, 0]
   \<and> mask (flows ! Suc 0) = one_minus (mask (flows ! 0))
   \<and> unmasked_count 0 flows = 16 \<and> unmasked_count 1 flows = 16"
  using C8_masks_alternate by (simp add: K_def one_minus_def)

text \<open>
  Claim C9. Each iteration of the reverse-KLD loop steps the scheduler exactly once,
  whatever the loss; the training cell steps it \<open>max_iter\<close> times.
\<close>

theorem C9_scheduler_steps:
  "count_list (calls (nsf_iteration L it s)) SchedulerStep =
     Suc (count_list (calls s) SchedulerStep) \<and>
   count_list (calls (nsf_train L s)) SchedulerStep =
     count_list (calls s) SchedulerStep + nsf_max_iter"
  by (simp add: calls_nsf_iteration count_list_app nsf_train_def scheduler_steps_nsf_loop)

text \<open>Iteration 0 has a NaN loss and steps the scheduler.\<close>

theorem C9_scheduler_steps_witness:
  "isnan (reverse_kld test_lib 0 (params test_world) nsf_num_samples) \<and>
   count_list (calls (nsf_iteration test_lib 0 test_world)) SchedulerStep = 1 \<and>
   count_list (calls (nsf_train test_lib test_world)) SchedulerStep = 10000"
  using C9_scheduler_steps [of test_lib 0 test_world]
  by (simp add: test_lib_def test_world_def nsf_max_iter_def)

text \<open>
  Claim C10 says that an iteration of the reverse-KLD loop with a non-finite loss changes
  nothing but the loss history. Iteration 499 of the test library has an infinite loss;
  it also steps the scheduler and writes a checkpoint.
\<close>

theorem C10_counterexample:
  "isinf (reverse_kld test_lib 499 (params test_world) nsf_num_samples) \<and>
   nsf_iteration test_lib 499 test_world \<noteq> log_loss PosInf test_world \<and>
   count_list (calls (nsf_iteration test_lib 499 test_world)) SchedulerStep = 1 \<and>
   count_list (calls test_world) SchedulerStep = 0 \<and>
   saved_files (calls (nsf_iteration test_lib 499 test_world)) = [''model_00500.pt''] \<and>
   saved_files (calls test_world) = []"
proof -
  have l: "reverse_kld test_lib 499 p m = PosInf" for p m
    by (simp add: test_lib_def)
  have c: "calls (nsf_iteration test_lib 499 test_world) =
      [ZeroGrad, ReverseKLD nsf_num_samples, Eval, LogProb, Train,
       Pcolormesh (density_grid (exp_finite test_lib)
         (log_prob test_lib (params (nsf_iteration test_lib 499 test_world)))),
       Save (checkpoint_name 500), SchedulerStep]"
    using calls_nsf_iteration [of test_lib 499 test_world]
    by (simp add: l isfinite_def nsf_show_iter_def test_world_def)
  have n: "checkpoint_name 500 = ''model_00500.pt''"
    by (simp add: checkpoint_name_def fmt_05i_def decimal.simps digit_def Let_def numeral_2_eq_2)
  have "calls (log_loss PosInf test_world) = []"
    by (simp add: log_loss_def test_world_def)
  with c have "nsf_iteration test_lib 499 test_world \<noteq> log_loss PosInf test_world"
    by auto
  moreover have "calls test_world = []"
    by (simp add: test_world_def)
  ultimately show ?thesis
    by (simp add: l c n)
qed

text \<open>
  Claim C10, amended. An iteration of the reverse-KLD loop whose loss is not finite
  leaves the model parameters unchanged and appends the loss to the loss history. Its
  calls are the zeroing of the gradients, the loss computation, the scheduler step and,
  when \<open>it + 1\<close> is a multiple of \<open>show_iter\<close>, the plot and the checkpoint; there is
  no backward pass and no optimizer step.
\<close>

theorem C10_nonfinite_iteration:
  assumes "\<not> isfinite (reverse_kld L it (params s) nsf_num_samples)"
  shows "params (nsf_iteration L it s) = params s \<and>
         loss_hist (nsf_iteration L it s) =
           loss_hist s @ [reverse_kld L it (params s) nsf_num_samples] \<and>
         calls (nsf_iteration L it s) =
           calls s @ [ZeroGrad, ReverseKLD nsf_num_samples] @
             (if (it + 1) mod nsf_show_iter = 0
              then [Eval, LogProb, Train,
                    Pcolormesh (density_grid (exp_finite L) (log_prob L (params s))),
                    Save (checkpoint_name (it + 1))]
              else []) @
             [SchedulerStep]"
  using assms calls_nsf_iteration [of L it s]
  by (simp add: params_nsf_iteration loss_hist_nsf_iteration)

text \<open>Iteration 0 of the test library has a NaN loss.\<close>

theorem C10_nonfinite_iteration_witness:
  "\<not> isfinite (reverse_kld test_lib 0 (params test_world) nsf_num_samples) \<and>
   params (nsf_iteration test_lib 0 test_world) = params test_world \<and>
   loss_hist (nsf_iteration test_lib 0 test_world) = [NaN] \<and>
   calls (nsf_iteration test_lib 0 test_world) =
     [ZeroGrad, ReverseKLD nsf_num_samples, SchedulerStep]"
proof -
  have h: "\<not> isfinite (reverse_kld test_lib 0 (params test_world) nsf_num_samples)"
    by (simp add: test_lib_def isfinite_def)
  show ?thesis
    using h C10_nonfinite_iteration [OF h]
    by (simp add: test_lib_def test_world_def nsf_show_iter_def)
qed

end
